theory Spec2Isabelle
  imports Complex_Main
begin

section \<open>The unity Lewis number transport model\<close>

text \<open>
  A shallow embedding of the class \<open>UnityLewisTransport\<close> of
  \<^verbatim>\<open>include/cantera/transport/UnityLewisTransport.h\<close>: its four member functions
  \<open>transportModel\<close>, \<open>getMixDiffCoeffs\<close>, \<open>getMixDiffCoeffsMole\<close> and
  \<open>getMixDiffCoeffsMass\<close>.

  The C++ type \<open>double\<close> is the type variable \<open>'d\<close>. The code only divides and
  multiplies values of that type, so \<open>'d\<close> carries the two operations \<open>/\<close> and \<open>*\<close>
  and no law about them: every theorem below holds for whatever the two
  operations compute, IEEE 754 arithmetic included. Equality on \<open>'d\<close> is equality of
  the stored value.
\<close>

subsection \<open>Errors\<close>

text \<open>
  The one \<^verbatim>\<open>throw\<close> of the class raises \<open>NotImplementedError\<close>, constructed from
  the name of the procedure that is not implemented.
\<close>

datatype error = NotImplementedError string

subsection \<open>The collaborators\<close>

text \<open>
  Modelled from the spec: the headers \<^verbatim>\<open>MixTransport.h\<close> and
  \<^verbatim>\<open>cantera/thermo/ThermoPhase.h\<close> are not among the sources, so the three member
  functions the class calls are parameters. \<open>'p\<close> is the state of the
  \<open>ThermoPhase\<close> object behind the pointer \<open>m_thermo\<close>, \<open>'b\<close> the state of the
  \<open>MixTransport\<close> base object.
  \<^item> \<open>density\<close> and \<open>cp_mass\<close> are the phase's \<^verbatim>\<open>density()\<close> and
    \<^verbatim>\<open>cp_mass()\<close>, which the spec gives as \<^verbatim>\<open>density() -> float\<close> and
    \<^verbatim>\<open>massSpecificHeatCapacity() -> float\<close>: readers of the phase state.
  \<^item> \<open>thermalConductivity\<close> is the base's \<^verbatim>\<open>thermalConductivity()\<close>, which the
    spec gives as \<^verbatim>\<open>thermalConductivity() -> float\<close>, computed from the phase state,
    with any caching left to the base model. It reads the phase and the base state
    and returns the value together with the base state it leaves behind.
  The spec gives none of the three a failure mode, so each returns a value in every
  state. Since no collaborator modifies what another one reads, the order in which
  C++ evaluates the three calls of one expression does not matter.
\<close>

record ('p, 'b, 'd) collaborators =
  thermalConductivity :: "'p \<Rightarrow> 'b \<Rightarrow> 'd \<times> 'b"
  density :: "'p \<Rightarrow> 'd"
  cp_mass :: "'p \<Rightarrow> 'd"

subsection \<open>The object\<close>

text \<open>
  The members of the object that the class reads: the pointer \<open>m_thermo\<close> (here the
  phase it points to), the species count \<open>m_nsp\<close> (a \<^verbatim>\<open>size_t\<close>; the loop counter
  stays below it, so no arithmetic on it wraps around and it is a \<open>nat\<close>), and
  \<open>m_base\<close>, which stands for all other members of the \<open>MixTransport\<close> base object.
\<close>

record ('p, 'b) UnityLewisTransport =
  m_thermo :: 'p
  m_nsp :: nat
  m_base :: 'b

text \<open>
  The parameter \<^verbatim>\<open>double* const d\<close> is a pointer without a length: \<open>d[k]\<close> is the
  cell \<open>k\<close> places after it, for any \<open>k\<close>. The memory seen through \<open>d\<close> is therefore
  a function from offsets to values, and \<^verbatim>\<open>d[k] = Dm\<close> is \<open>d(k := Dm)\<close>.

  A call ends by returning or by throwing, and in both cases leaves an object and a
  memory behind: its outcome is the result (\<open>Inl\<close> the exception thrown, \<open>Inr ()\<close>
  a normal return of \<^verbatim>\<open>void\<close>) with the object and the memory after the call.
\<close>

type_synonym 'd buffer = "nat \<Rightarrow> 'd"

type_synonym ('p, 'b, 'd) outcome =
  "(error + unit) \<times> ('p, 'b) UnityLewisTransport \<times> 'd buffer"

definition result :: "('p, 'b, 'd) outcome \<Rightarrow> error + unit" where
  "result oc = fst oc"


definition buffer_after :: "('p, 'b, 'd) outcome \<Rightarrow> 'd buffer" where
  "buffer_after oc = snd (snd oc)"

subsection \<open>The member functions\<close>

text \<open>\<^verbatim>\<open>virtual std::string transportModel() const\<close>: a \<^verbatim>\<open>const\<close> member returning a literal.\<close>

definition transportModel :: "('p, 'b) UnityLewisTransport \<Rightarrow> string" where
  "transportModel this = ''UnityLewis''"

text \<open>
  The loop \<^verbatim>\<open>for (size_t k = 0; k < m_nsp; k++) { d[k] = Dm; }\<close>, the same text in
  \<open>getMixDiffCoeffs\<close> and in \<open>getMixDiffCoeffsMass\<close>, from the counter value \<open>k\<close> on.
\<close>

function fill_loop ::
  "('p, 'b) UnityLewisTransport \<Rightarrow> 'd \<Rightarrow> nat \<Rightarrow> 'd buffer \<Rightarrow> 'd buffer" where
  "fill_loop this Dm k d =
     (if k < m_nsp this then fill_loop this Dm (k + 1) (d(k := Dm)) else d)"
  by pat_completeness auto
termination
  by (relation "measure (\<lambda>(this, Dm, k, d). m_nsp this - k)") auto

declare fill_loop.simps [simp del]

text \<open>
  The local array \<^verbatim>\<open>int arr[53]\<close> of \<open>getMixDiffCoeffs\<close> is initialised from 53
  floating-point literals, taken here at their decimal value. Converting a
  floating-point value to \<^verbatim>\<open>int\<close> discards the fractional part. The array is
  never read.
\<close>

definition double_to_int :: "rat \<Rightarrow> int" where
  "double_to_int x = (if 0 \<le> x then \<lfloor>x\<rfloor> else \<lceil>x\<rceil>)"

definition arr_initializer :: "int list" where
  "arr_initializer = map double_to_int
     [0.27443569898605347,
      0.15385763347148895,
      0.5543738603591919,
      0.8452105522155762,
      0.56460040807724,
      0.713638424873352,
      0.8536510467529297,
      0.8592507839202881,
      0.5604416728019714,
      0.5199534893035889,
      0.7710865139961243,
      0.7710865139961243,
      0.7878470420837402,
      0.790300726890564,
      0.8603102564811707,
      1.0825186967849731,
      1.0451807975769043,
      1.053497314453125,
      1.068619966506958,
      1.068619966506958,
      1.074398398399353,
      1.027429461479187,
      1.0375499725341797,
      1.0472034215927124,
      1.059842586517334,
      1.1490812301635742,
      1.1581830978393555,
      0.6890178918838501,
      1.2294784784317017,
      1.2294784784317017,
      0.5888339281082153,
      0.5265711545944214,
      0.5083094239234924,
      0.74753338098526,
      0.8286235332489014,
      0.8666804432868958,
      0.9892193675041199,
      1.094902515411377,
      0.8575202822685242,
      0.8238334655761719,
      1.0616075992584229,
      1.070987582206726,
      0.6890308856964111,
      1.0902538299560547,
      1.0902538299560547,
      1.0902538299560547,
      1.085353970527649,
      0.7689386606216431,
      0.8779736757278442,
      1.4854788780212402,
      1.4919153451919556,
      1.2350292205810547,
      1.2404004335403442]"

text \<open>
  \<^verbatim>\<open>virtual void getMixDiffCoeffs(double* const d)\<close>: \<open>Dm\<close> from the three
  collaborators, the local array, the loop.
\<close>

definition getMixDiffCoeffs ::
  "('p, 'b, 'd::{times,inverse}) collaborators \<Rightarrow> ('p, 'b) UnityLewisTransport \<Rightarrow> 'd buffer
     \<Rightarrow> ('p, 'b, 'd) outcome" where
  "getMixDiffCoeffs X this d =
     (let (lambda, b) = thermalConductivity X (m_thermo this) (m_base this);
          this = this\<lparr>m_base := b\<rparr>;
          Dm = lambda / (density X (m_thermo this) * cp_mass X (m_thermo this));
          arr = arr_initializer
      in (Inr (), this, fill_loop this Dm 0 d))"

text \<open>
  \<^verbatim>\<open>virtual void getMixDiffCoeffsMole(double* const d)\<close>: the body is one \<^verbatim>\<open>throw\<close>.
\<close>

definition getMixDiffCoeffsMole ::
  "('p, 'b) UnityLewisTransport \<Rightarrow> 'd buffer \<Rightarrow> ('p, 'b, 'd) outcome" where
  "getMixDiffCoeffsMole this d =
     (Inl (NotImplementedError ''UnityLewisTransport::getMixDiffCoeffsMole''), this, d)"

text \<open>
  \<^verbatim>\<open>virtual void getMixDiffCoeffsMass(double* const d)\<close>: \<open>Dm\<close> from the three
  collaborators, the loop.
\<close>

definition getMixDiffCoeffsMass ::
  "('p, 'b, 'd::{times,inverse}) collaborators \<Rightarrow> ('p, 'b) UnityLewisTransport \<Rightarrow> 'd buffer
     \<Rightarrow> ('p, 'b, 'd) outcome" where
  "getMixDiffCoeffsMass X this d =
     (let (lambda, b) = thermalConductivity X (m_thermo this) (m_base this);
          this = this\<lparr>m_base := b\<rparr>;
          Dm = lambda / (density X (m_thermo this) * cp_mass X (m_thermo this))
      in (Inr (), this, fill_loop this Dm 0 d))"

subsection \<open>The member function without its table\<close>

text \<open>
  Following the spec's words (``reimplementations must omit it entirely''): the
  reimplementation of \<open>getMixDiffCoeffs\<close> with the local array removed and nothing
  else changed, to be compared with \<open>getMixDiffCoeffs\<close> itself.
\<close>

definition getMixDiffCoeffs_without_table ::
  "('p, 'b, 'd::{times,inverse}) collaborators \<Rightarrow> ('p, 'b) UnityLewisTransport \<Rightarrow> 'd buffer
     \<Rightarrow> ('p, 'b, 'd) outcome" where
  "getMixDiffCoeffs_without_table X this d =
     (let (lambda, b) = thermalConductivity X (m_thermo this) (m_base this);
          this = this\<lparr>m_base := b\<rparr>;
          Dm = lambda / (density X (m_thermo this) * cp_mass X (m_thermo this))
      in (Inr (), this, fill_loop this Dm 0 d))"

subsection \<open>A concrete mixture\<close>

text \<open>
  Modelled from the spec: an instance of the absent collaborators on the example
  mixture of the spec (thermal conductivity 0.05, density 1.2, mass-specific heat
  capacity 1000, five species), over the reals. The phase is the pair of its density
  and heat capacity. The base model caches the conductivity, which the spec leaves to
  it (``caching, if any, is the responsibility of the base transport model for the
  conductivity term''): its state is the cached value, if any, and
  \<open>thermalConductivity\<close> fills an empty cache and returns the cached value.
\<close>

definition example_collaborators :: "(real \<times> real, real option, real) collaborators" where
  "example_collaborators =
     \<lparr>thermalConductivity =
        (\<lambda>p b. case b of None \<Rightarrow> (0.05, Some 0.05) | Some v \<Rightarrow> (v, Some v)),
      density = fst,
      cp_mass = snd\<rparr>"

definition example_transport :: "(real \<times> real, real option) UnityLewisTransport" where
  "example_transport = \<lparr>m_thermo = (1.2, 1000), m_nsp = 5, m_base = None\<rparr>"

text \<open>An object with no species.\<close>

definition example_empty :: "(real \<times> real, real option) UnityLewisTransport" where
  "example_empty = \<lparr>m_thermo = (1.2, 1000), m_nsp = 0, m_base = None\<rparr>"

text \<open>A memory whose cell \<open>i\<close> holds the number \<open>i\<close>, so that a cell left alone shows.\<close>

definition example_d :: "real buffer" where
  "example_d = (\<lambda>i. real i)"

section \<open>Properties\<close>

subsection \<open>The loop\<close>

text \<open>
  Started at \<open>k\<close>, the loop stores \<open>Dm\<close> in the cells \<open>k, \<dots>, m_nsp - 1\<close> and in no
  other cell.
\<close>

lemma fill_loop_cells:
  "fill_loop this Dm k d = (\<lambda>i. if k \<le> i \<and> i < m_nsp this then Dm else d i)"
proof (induction this Dm k d rule: fill_loop.induct)
  case (1 this Dm k d)
  show ?case
  proof (cases "k < m_nsp this")
    case True
    have "fill_loop this Dm k d = fill_loop this Dm (k + 1) (d(k := Dm))"
      using True by (subst fill_loop.simps) simp
    also have "\<dots> = (\<lambda>i. if k + 1 \<le> i \<and> i < m_nsp this then Dm else (d(k := Dm)) i)"
      using True by (rule "1.IH")
    also have "\<dots> = (\<lambda>i. if k \<le> i \<and> i < m_nsp this then Dm else d i)"
      using True by (auto simp: fun_eq_iff)
    finally show ?thesis .
  next
    case False
    have "fill_loop this Dm k d = d"
      using False by (subst fill_loop.simps) simp
    with False show ?thesis
      by (auto simp: fun_eq_iff)
  qed
qed


text \<open>The array \<^verbatim>\<open>int arr[53]\<close> has an initialiser for each of its 53 elements.\<close>

lemma arr_initializer_length: "length arr_initializer = 53"
  by (simp add: arr_initializer_def)

subsection \<open>What a call leaves behind\<close>

text \<open>
  The outcome of the two accessors in closed form: a normal return, the object with
  the base state that \<open>thermalConductivity\<close> left, and the memory with the first
  \<open>m_nsp\<close> cells set to \<open>Dm\<close>.
\<close>

lemma outcome_getMixDiffCoeffs:
  "getMixDiffCoeffs X this d =
     (Inr (),
      this\<lparr>m_base := snd (thermalConductivity X (m_thermo this) (m_base this))\<rparr>,
      \<lambda>i. if i < m_nsp this
          then fst (thermalConductivity X (m_thermo this) (m_base this))
               / (density X (m_thermo this) * cp_mass X (m_thermo this))
          else d i)"
  by (simp add: getMixDiffCoeffs_def fill_loop_cells Let_def case_prod_beta cong: if_cong)

lemma outcome_getMixDiffCoeffsMass:
  "getMixDiffCoeffsMass X this d =
     (Inr (),
      this\<lparr>m_base := snd (thermalConductivity X (m_thermo this) (m_base this))\<rparr>,
      \<lambda>i. if i < m_nsp this
          then fst (thermalConductivity X (m_thermo this) (m_base this))
               / (density X (m_thermo this) * cp_mass X (m_thermo this))
          else d i)"
  by (simp add: getMixDiffCoeffsMass_def fill_loop_cells Let_def case_prod_beta cong: if_cong)

text \<open>The scalar diffusivity of the concrete mixture.\<close>

lemma example_Dm:
  "fst (thermalConductivity example_collaborators (m_thermo example_transport)
          (m_base example_transport))
   / (density example_collaborators (m_thermo example_transport)
      * cp_mass example_collaborators (m_thermo example_transport)) = 1 / 24000"
  by (simp add: example_transport_def example_collaborators_def)

subsection \<open>The claims\<close>

text \<open>
  C1. For every object, every memory and every species index \<open>k < m_nsp\<close>,
  \<open>getMixDiffCoeffs\<close> returns normally and leaves in cell \<open>k\<close> the value
  \<open>thermalConductivity() / (density() * cp_mass())\<close>; any two cells \<open>j, k < m_nsp\<close>
  hold the same value.
\<close>

theorem getMixDiffCoeffs_entries:
  assumes "k < m_nsp this" and "j < m_nsp this"
  shows "result (getMixDiffCoeffs X this d) = Inr ()
       \<and> buffer_after (getMixDiffCoeffs X this d) k =
           fst (thermalConductivity X (m_thermo this) (m_base this))
           / (density X (m_thermo this) * cp_mass X (m_thermo this))
       \<and> buffer_after (getMixDiffCoeffs X this d) j = buffer_after (getMixDiffCoeffs X this d) k"
  using assms by (simp add: outcome_getMixDiffCoeffs result_def buffer_after_def)

theorem getMixDiffCoeffs_entries_witness:
  "(3::nat) < m_nsp example_transport \<and> (0::nat) < m_nsp example_transport
   \<and> result (getMixDiffCoeffs example_collaborators example_transport example_d) = Inr ()
   \<and> buffer_after (getMixDiffCoeffs example_collaborators example_transport example_d) 3
       = 1 / 24000
   \<and> buffer_after (getMixDiffCoeffs example_collaborators example_transport example_d) 0
       = 1 / 24000"
proof -
  have k: "(3::nat) < m_nsp example_transport" and j: "(0::nat) < m_nsp example_transport"
    by (simp_all add: example_transport_def)
  show ?thesis
    using k j getMixDiffCoeffs_entries [OF k j, of example_collaborators example_d] example_Dm
    by simp
qed

text \<open>
  C2. For every object and every memory, also with \<open>m_nsp = 0\<close>,
  \<open>getMixDiffCoeffsMole\<close> ends by throwing \<open>NotImplementedError\<close>; it never returns
  normally.
\<close>

theorem getMixDiffCoeffsMole_throws:
  "result (getMixDiffCoeffsMole this d) =
     Inl (NotImplementedError ''UnityLewisTransport::getMixDiffCoeffsMole'')"
  by (simp add: getMixDiffCoeffsMole_def result_def)

text \<open>
  C3. On the same object and memory, \<open>getMixDiffCoeffsMass\<close> leaves the same memory
  as \<open>getMixDiffCoeffs\<close>: at every species index \<open>k < m_nsp\<close> both leave the value
  \<open>thermalConductivity() / (density() * cp_mass())\<close>, and the two memories are equal
  as a whole.
\<close>

theorem getMixDiffCoeffsMass_same_values:
  assumes "k < m_nsp this"
  shows "buffer_after (getMixDiffCoeffsMass X this d) k = buffer_after (getMixDiffCoeffs X this d) k
       \<and> buffer_after (getMixDiffCoeffsMass X this d) k =
           fst (thermalConductivity X (m_thermo this) (m_base this))
           / (density X (m_thermo this) * cp_mass X (m_thermo this))
       \<and> buffer_after (getMixDiffCoeffsMass X this d) = buffer_after (getMixDiffCoeffs X this d)"
  using assms
  by (simp add: outcome_getMixDiffCoeffs outcome_getMixDiffCoeffsMass buffer_after_def)

theorem getMixDiffCoeffsMass_same_values_witness:
  "(4::nat) < m_nsp example_transport
   \<and> buffer_after (getMixDiffCoeffsMass example_collaborators example_transport example_d) 4 =
       buffer_after (getMixDiffCoeffs example_collaborators example_transport example_d) 4
   \<and> buffer_after (getMixDiffCoeffsMass example_collaborators example_transport example_d) 4 =
       1 / 24000"
proof -
  have k: "(4::nat) < m_nsp example_transport"
    by (simp add: example_transport_def)
  show ?thesis
    using k getMixDiffCoeffsMass_same_values [OF k, of example_collaborators example_d] example_Dm
    by simp
qed

text \<open>
  C4. \<open>transportModel\<close> returns the label \<open>UnityLewis\<close> for every object, whatever the
  phase and the base state are.
\<close>

theorem transportModel_constant:
  "transportModel this = ''UnityLewis''"
  by (simp add: transportModel_def)

text \<open>
  C5. The table of \<open>getMixDiffCoeffs\<close> is dead data: for every object and memory the
  outcome of \<open>getMixDiffCoeffs\<close> (result, object and memory) is the outcome of its
  reimplementation without the table, which in turn is the outcome of
  \<open>getMixDiffCoeffsMass\<close>.
\<close>

theorem getMixDiffCoeffs_table_is_dead:
  "getMixDiffCoeffs X this d = getMixDiffCoeffs_without_table X this d
   \<and> getMixDiffCoeffs_without_table X this d = getMixDiffCoeffsMass X this d"
  by (simp add: getMixDiffCoeffs_def getMixDiffCoeffs_without_table_def
      getMixDiffCoeffsMass_def Let_def)



text \<open>
  C7. When \<open>m_nsp = 0\<close>, \<open>getMixDiffCoeffs\<close> and \<open>getMixDiffCoeffsMass\<close> return normally
  and leave the memory exactly as it was.
\<close>

theorem empty_species_no_write:
  assumes "m_nsp this = 0"
  shows "result (getMixDiffCoeffs X this d) = Inr ()
       \<and> buffer_after (getMixDiffCoeffs X this d) = d
       \<and> result (getMixDiffCoeffsMass X this d) = Inr ()
       \<and> buffer_after (getMixDiffCoeffsMass X this d) = d"
  using assms
  by (simp add: outcome_getMixDiffCoeffs outcome_getMixDiffCoeffsMass buffer_after_def
      result_def)

theorem empty_species_no_write_witness:
  "m_nsp example_empty = 0
   \<and> result (getMixDiffCoeffs example_collaborators example_empty example_d) = Inr ()
   \<and> buffer_after (getMixDiffCoeffs example_collaborators example_empty example_d) = example_d
   \<and> result (getMixDiffCoeffsMass example_collaborators example_empty example_d) = Inr ()
   \<and> buffer_after (getMixDiffCoeffsMass example_collaborators example_empty example_d)
       = example_d"
proof -
  have n: "m_nsp example_empty = 0"
    by (simp add: example_empty_def)
  show ?thesis
    using n empty_species_no_write [OF n, of example_collaborators example_d]
    by simp
qed

text \<open>
  C8. The supported accessors are total: for every object and memory
  \<open>getMixDiffCoeffs\<close> and \<open>getMixDiffCoeffsMass\<close> return normally, and they write no cell
  at or beyond offset \<open>m_nsp\<close>, so that a buffer of \<open>m_nsp\<close> cells holds every write;
  \<open>transportModel\<close> returns its label. An operation of the class that throws is
  \<open>getMixDiffCoeffsMole\<close>, what it throws is \<open>NotImplementedError\<close>, and every error
  of the class is of that kind.
\<close>

theorem supported_accessors_total:
  "result (getMixDiffCoeffs X this d) = Inr ()
   \<and> result (getMixDiffCoeffsMass X this d) = Inr ()
   \<and> (\<forall>i\<ge>m_nsp this. buffer_after (getMixDiffCoeffs X this d) i = d i)
   \<and> (\<forall>i\<ge>m_nsp this. buffer_after (getMixDiffCoeffsMass X this d) i = d i)
   \<and> transportModel this = ''UnityLewis''
   \<and> (\<forall>e. result (getMixDiffCoeffsMole this d) = Inl e \<longrightarrow>
          e = NotImplementedError ''UnityLewisTransport::getMixDiffCoeffsMole'')
   \<and> (\<forall>e::error. \<exists>s. e = NotImplementedError s)"
proof -
  have "\<exists>s. e = NotImplementedError s" for e :: error
    by (cases e) simp
  then show ?thesis
    by (simp add: outcome_getMixDiffCoeffs outcome_getMixDiffCoeffsMass buffer_after_def
      result_def transportModel_def getMixDiffCoeffsMole_def)
qed

theorem supported_accessors_total_witness:
  "m_nsp example_transport \<le> 5
   \<and> result (getMixDiffCoeffs example_collaborators example_transport example_d) = Inr ()
   \<and> result (getMixDiffCoeffsMass example_collaborators example_transport example_d) = Inr ()
   \<and> buffer_after (getMixDiffCoeffs example_collaborators example_transport example_d) 5 = 5
   \<and> buffer_after (getMixDiffCoeffsMass example_collaborators example_transport example_d) 5 = 5
   \<and> result (getMixDiffCoeffsMole example_transport example_d)
       = Inl (NotImplementedError ''UnityLewisTransport::getMixDiffCoeffsMole'')"
proof -
  have n: "m_nsp example_transport \<le> 5"
    by (simp add: example_transport_def)
  have d: "example_d 5 = 5"
    by (simp add: example_d_def)
  obtain e where e: "result (getMixDiffCoeffsMole example_transport example_d) = Inl e"
    by (simp add: getMixDiffCoeffsMole_def result_def)
  show ?thesis
    using n d e supported_accessors_total [of example_collaborators example_transport example_d]
    by simp
qed




text \<open>
  C10. \<open>getMixDiffCoeffsMole\<close> throws before it writes: for every object and memory
  the call ends with \<open>NotImplementedError\<close> and the memory after it is the memory
  before it.
\<close>

theorem getMixDiffCoeffsMole_leaves_buffer:
  "result (getMixDiffCoeffsMole this d)
     = Inl (NotImplementedError ''UnityLewisTransport::getMixDiffCoeffsMole'')
   \<and> buffer_after (getMixDiffCoeffsMole this d) = d"
  by (simp add: getMixDiffCoeffsMole_def result_def buffer_after_def)

end
